theory Spec2Isabelle
  imports Complex_Main
begin

section \<open>Numbers, formatted decimals and array primitives\<close>

text \<open>
  The engine is the body of the React component \<^verbatim>\<open>App\<close>. Its numbers are JavaScript
  numbers; they are modelled as reals, that is, as finite values without rounding error.
  A quotient of the source is modelled for a non-zero divisor only: the divisors are
  guarded by the source or are differences of years, which the component takes from a
  list of distinct years; a theorem that depends on such a quotient says so.

  \<^verbatim>\<open>x.toFixed(k)\<close> returns a string: an optional minus sign (when \<open>x < 0\<close>) and the
  integer \<open>n\<close> closest to \<open>|x| * 10^k\<close> (the larger one on a tie), written with \<open>k\<close>
  fraction digits. The string is kept as the triple (sign, k, n), so that a formatted
  value stays distinct from a number. (For \<open>|x| \<ge> 10^21\<close> JavaScript switches to
  exponent notation; such magnitudes are outside the model.)
\<close>

datatype fixed = Fixed (negative: bool) (digits: nat) (scaled: nat)

definition toFixed :: "nat \<Rightarrow> real \<Rightarrow> fixed" where
  "toFixed k x = Fixed (x < 0) k (nat \<lfloor>\<bar>x\<bar> * 10 ^ k + 1 / 2\<rfloor>)"

text \<open>
  The number a formatted string denotes: what \<^verbatim>\<open>parseFloat\<close> and the implicit
  coercions of \<^verbatim>\<open>-\<close>, \<^verbatim>\<open><\<close> and \<^verbatim>\<open>>=\<close> read from it.
\<close>

definition toNumber :: "fixed \<Rightarrow> real" where
  "toNumber f = (if negative f then - 1 else 1) * (real (scaled f) / 10 ^ digits f)"

text \<open>
  \<^verbatim>\<open>Array.prototype.sort(compareFn)\<close> is a stable sort. The comparator is given as
  the relation \<open>le a b\<close>, read \<^verbatim>\<open>compareFn(a, b) <= 0\<close>; for a consistent comparator
  the stable ordering is unique and insertion from the right computes it.
\<close>

fun insert_sorted :: "('a \<Rightarrow> 'a \<Rightarrow> bool) \<Rightarrow> 'a \<Rightarrow> 'a list \<Rightarrow> 'a list" where
  "insert_sorted le x [] = [x]"
| "insert_sorted le x (y # ys) = (if le x y then x # y # ys else y # insert_sorted le x ys)"

definition array_sort :: "('a \<Rightarrow> 'a \<Rightarrow> bool) \<Rightarrow> 'a list \<Rightarrow> 'a list" where
  "array_sort le xs = foldr (insert_sorted le) xs []"

text \<open>\<^verbatim>\<open>Math.max(...xs)\<close> and \<^verbatim>\<open>Math.min(...xs)\<close> on a non-empty array.\<close>

fun math_max :: "real list \<Rightarrow> real" where
  "math_max [] = 0"
| "math_max (x # xs) = fold max xs x"

fun math_min :: "real list \<Rightarrow> real" where
  "math_min [] = 0"
| "math_min (x # xs) = fold min xs x"

section \<open>TransitionEvolutionAnalyzer\<close>

text \<open>
  A record of \<^verbatim>\<open>temporalTransitionData\<close>: \<^verbatim>\<open>{ year, from, to, area, confidence }\<close>.
  Class names are strings; a string is its UTF-8 byte sequence.
\<close>

record flow =
  year :: int
  from_class :: string
  to_class :: string
  area :: real
  confidence :: real

text \<open>The demonstration data the component analyses.\<close>

definition temporalTransitionData :: "flow list" where
  "temporalTransitionData =
    [ \<lparr> year = 2018, from_class = ''Forest'', to_class = ''Built-up'', area = 2.1, confidence = 0.92 \<rparr>,
      \<lparr> year = 2020, from_class = ''Forest'', to_class = ''Built-up'', area = 5.4, confidence = 0.88 \<rparr>,
      \<lparr> year = 2022, from_class = ''Forest'', to_class = ''Built-up'', area = 8.2, confidence = 0.85 \<rparr>,
      \<lparr> year = 2024, from_class = ''Forest'', to_class = ''Built-up'', area = 14.2, confidence = 0.82 \<rparr>,
      \<lparr> year = 2018, from_class = ''Agriculture'', to_class = ''Built-up'', area = 15.0, confidence = 0.85 \<rparr>,
      \<lparr> year = 2020, from_class = ''Agriculture'', to_class = ''Built-up'', area = 19.5, confidence = 0.84 \<rparr>,
      \<lparr> year = 2022, from_class = ''Agriculture'', to_class = ''Built-up'', area = 20.1, confidence = 0.86 \<rparr>,
      \<lparr> year = 2024, from_class = ''Agriculture'', to_class = ''Built-up'', area = 21.6, confidence = 0.85 \<rparr>,
      \<lparr> year = 2020, from_class = ''Water'', to_class = ''Barren'', area = 0.5, confidence = 0.60 \<rparr>,
      \<lparr> year = 2024, from_class = ''Water'', to_class = ''Barren'', area = 1.3, confidence = 0.75 \<rparr> ]"

text \<open>
  The grouping key \<^verbatim>\<open>`${d.from} \<rightarrow> ${d.to}`\<close>: the two class names around a blank,
  the arrow U+2192 (bytes E2 86 92) and a blank.
\<close>

definition transition_key :: "flow \<Rightarrow> string" where
  "transition_key d = from_class d @ [CHR '' '', CHR 0xE2, CHR 0x86, CHR 0x92, CHR '' ''] @ to_class d"

text \<open>
  \<^verbatim>\<open>groups\<close> is a plain object used as a dictionary; \<^verbatim>\<open>Object.keys\<close> lists its keys in
  insertion order (no key is an array index, since every key contains the arrow). It is
  an association list in insertion order.
\<close>

fun add_to_group :: "flow \<Rightarrow> (string \<times> flow list) list \<Rightarrow> (string \<times> flow list) list" where
  "add_to_group d [] = [(transition_key d, [d])]"
| "add_to_group d ((k, g) # rest) =
     (if k = transition_key d then (k, g @ [d]) # rest else (k, g) # add_to_group d rest)"

definition group_by_key :: "flow list \<Rightarrow> (string \<times> flow list) list" where
  "group_by_key data = fold add_to_group data []"

record evolution =
  transition :: string
  history :: "flow list"
  totalVolume :: fixed
  latestFlow :: real
  trend :: string
  trendColor :: string
  deviationRatio :: fixed
  anomaly :: string
  anomalyColor :: string
  isConfStable :: bool
  confRange :: fixed
  cpri :: fixed
  readiness :: string
  readinessColor :: string

text \<open>
  The body of the \<^verbatim>\<open>map\<close> callback, for one key and its group. The labels
  \<^verbatim>\<open>anomaly\<close> and \<^verbatim>\<open>readiness\<close> are written without their trailing emoji. Every
  group that \<open>group_by_key\<close> builds is non-empty, so \<open>latest\<close> exists.
\<close>

definition evolution_of :: "string \<Rightarrow> flow list \<Rightarrow> evolution" where
  "evolution_of key grp =
    (let sorted = array_sort (\<lambda>a b. year a - year b \<le> 0) grp;
         latest = sorted ! (length sorted - 1);
         cumulativeVolume = foldl (\<lambda>sum d. sum + area d) 0 sorted;
         baselineRecs = take (length sorted - 1) sorted;
         baselineAvg = (if length baselineRecs > 0
                        then foldl (\<lambda>sum d. sum + area d) 0 baselineRecs / real (length baselineRecs)
                        else area latest);
         deviation = (if baselineAvg > 0 then area latest / baselineAvg else 1);
         confs = map confidence sorted;
         range = math_max confs - math_min confs;
         stable = (range < 0.10);
         lastFlow = area (sorted ! (length sorted - 1));
         prevFlow = area (sorted ! (length sorted - 2));
         logVolume = log 10 (area latest + 1);
         normalizedImpact = min (logVolume / 2) 1;
         trustFactor = (if stable then 1.0 else 0.8);
         confFactor = confidence latest;
         score = toFixed 2 (normalizedImpact * trustFactor * confFactor)
     in \<lparr> transition = key,
          history = sorted,
          totalVolume = toFixed 1 cumulativeVolume,
          latestFlow = area latest,
          trend = (if length sorted > 1
                   then (if lastFlow > prevFlow * 1.15 then ''Accelerating''
                         else if lastFlow < prevFlow * 0.85 then ''Decelerating''
                         else ''Stable'')
                   else ''Stable''),
          trendColor = (if length sorted > 1
                   then (if lastFlow > prevFlow * 1.15 then ''#EF4444''
                         else if lastFlow < prevFlow * 0.85 then ''#10B981''
                         else ''#64748B'')
                   else ''#64748B''),
          deviationRatio = toFixed 1 deviation,
          anomaly = (if deviation > 2.0 then ''Surge''
                     else if deviation > 1.3 then ''Elevated'' else ''Normal''),
          anomalyColor = (if deviation > 2.0 then ''#EF4444''
                     else if deviation > 1.3 then ''#F59E0B'' else ''#64748B''),
          isConfStable = stable,
          confRange = toFixed 2 range,
          cpri = score,
          readiness = (if toNumber score \<ge> 0.75 then ''Ready for Action''
                       else if toNumber score \<ge> 0.45 then ''Policy Review''
                       else ''Field Validation''),
          readinessColor = (if toNumber score \<ge> 0.75 then ''#10B981''
                       else if toNumber score \<ge> 0.45 then ''#F59E0B''
                       else ''#EF4444'') \<rparr>)"

text \<open>The evolutions in the order of \<^verbatim>\<open>Object.keys(groups)\<close>, before the final sort.\<close>

definition evolutions_by_key :: "flow list \<Rightarrow> evolution list" where
  "evolutions_by_key data = map (\<lambda>(key, grp). evolution_of key grp) (group_by_key data)"

text \<open>The final \<^verbatim>\<open>.sort((a,b) => b.cpri - a.cpri)\<close>.\<close>

definition analyzeTransitionEvolution :: "flow list \<Rightarrow> evolution list" where
  "analyzeTransitionEvolution data =
     array_sort (\<lambda>a b. toNumber (cpri b) - toNumber (cpri a) \<le> 0) (evolutions_by_key data)"

section \<open>TrendExtractor\<close>

text \<open>
  A row of the time-series table. The CSV loader runs in header mode without dynamic
  typing, so every field arrives as a string. A year is the decimal string of a
  non-negative integer and is modelled by that integer: \<open>decimal n\<close> is the string,
  \<open>n\<close> is what arithmetic coerces it to, and two years are \<^verbatim>\<open>===\<close> exactly when the
  integers are equal. The numeric fields are read through \<^verbatim>\<open>parseFloat\<close> and are
  modelled by their values.
\<close>

record ts_point =
  ts_year :: nat
  ts_lulc_class :: string
  ts_area_sq_km :: real
  ts_confidence :: real

fun decimal :: "nat \<Rightarrow> string" where
  "decimal n = (if n < 10 then [''0123456789'' ! n]
                else decimal (n div 10) @ [''0123456789'' ! (n mod 10)])"

declare decimal.simps [simp del]

text \<open>The \<^verbatim>\<open><\<close> of two strings: lexicographic on code units, a proper prefix first.\<close>

fun code_unit_less :: "string \<Rightarrow> string \<Rightarrow> bool" where
  "code_unit_less [] [] = False"
| "code_unit_less [] (d # ds) = True"
| "code_unit_less (c # cs) [] = False"
| "code_unit_less (c # cs) (d # ds) =
     (if (of_char c :: nat) < of_char d then True
      else if (of_char d :: nat) < of_char c then False
      else code_unit_less cs ds)"

text \<open>\<^verbatim>\<open>[...new Set(xs)]\<close>: the distinct elements in the order of their first occurrence.\<close>

definition new_Set :: "'a list \<Rightarrow> 'a list" where
  "new_Set xs = fold (\<lambda>x s. if x \<in> set s then s else s @ [x]) xs []"

text \<open>
  \<^verbatim>\<open>[...new Set(timeData.map(d => d.year))].sort()\<close>. Without a comparator,
  \<^verbatim>\<open>sort\<close> orders the elements by their strings: \<open>a\<close> goes before \<open>b\<close> unless the
  string of \<open>b\<close> is less than the string of \<open>a\<close>. (A table holding its years as
  numbers is ordered the same way, by the strings of the numbers.)
\<close>

definition years :: "ts_point list \<Rightarrow> nat list" where
  "years timeData =
     array_sort (\<lambda>a b. \<not> code_unit_less (decimal b) (decimal a)) (new_Set (map ts_year timeData))"

text \<open>
  The three series \<^verbatim>\<open>builtUpTrend\<close>, \<^verbatim>\<open>forestTrend\<close> and \<^verbatim>\<open>waterTrend\<close> are the
  same expression at three class names.
\<close>

definition class_trend :: "string \<Rightarrow> ts_point list \<Rightarrow> real list" where
  "class_trend c timeData =
     map (\<lambda>y. case find (\<lambda>d. ts_year d = y \<and> ts_lulc_class d = c) timeData of
                 Some record \<Rightarrow> ts_area_sq_km record
               | None \<Rightarrow> 0)
         (years timeData)"

definition builtUpTrend :: "ts_point list \<Rightarrow> real list" where
  "builtUpTrend = class_trend ''Built-up''"

definition forestTrend :: "ts_point list \<Rightarrow> real list" where
  "forestTrend = class_trend ''Forest''"

definition waterTrend :: "ts_point list \<Rightarrow> real list" where
  "waterTrend = class_trend ''Water''"

section \<open>EcoRiskAssessor\<close>

text \<open>The returned object without its \<^verbatim>\<open>icon\<close>; \<open>None\<close> is \<^verbatim>\<open>null\<close>.\<close>

record eco_risk =
  lossArea :: fixed
  eco_trend :: string
  eco_color :: string
  forestLossPct :: fixed
  waterLossPct :: fixed

definition getEcoRiskAssessment :: "ts_point list \<Rightarrow> eco_risk option" where
  "getEcoRiskAssessment timeData =
    (if length (years timeData) < 2 then None
     else
       let baselineForest = forestTrend timeData ! 0;
           currentForest = forestTrend timeData ! (length (forestTrend timeData) - 1);
           forestLoss = baselineForest - currentForest;
           forestPct = (if baselineForest > 0 then (forestLoss / baselineForest) * 100 else 0);
           baselineWater = waterTrend timeData ! 0;
           currentWater = waterTrend timeData ! (length (waterTrend timeData) - 1);
           waterLoss = baselineWater - currentWater;
           waterPct = (if baselineWater > 0 then (waterLoss / baselineWater) * 100 else 0);
           totalEcoLoss = forestLoss + waterLoss
       in Some \<lparr> lossArea = toFixed 1 totalEcoLoss,
                 eco_trend = (if totalEcoLoss > 20 then ''Rapid Degradation''
                              else if totalEcoLoss > 5 then ''Declining''
                              else if totalEcoLoss < - 1 then ''Recovering''
                              else ''Stable''),
                 eco_color = (if totalEcoLoss > 20 then ''#EF4444''
                              else if totalEcoLoss > 5 then ''#F59E0B''
                              else if totalEcoLoss < - 1 then ''#3B82F6''
                              else ''#10B981''),
                 forestLossPct = toFixed 1 forestPct,
                 waterLossPct = toFixed 1 waterPct \<rparr>)"

section \<open>ProjectionSimulator\<close>

text \<open>
  The returned object; \<^verbatim>\<open>riskLevel\<close> is written without its emoji. A year of the
  table is a string, so \<^verbatim>\<open>years[lastIdx] + yearsToProject\<close> appends the digit.
\<close>

record projection =
  targetYear :: string
  projectedArea :: fixed
  increase :: fixed
  riskLevel :: string
  proj_color :: string
  reduction :: "fixed option"
  savedArea :: "fixed option"

definition getFutureProjection :: "ts_point list \<Rightarrow> real \<Rightarrow> projection option" where
  "getFutureProjection timeData policyIntensity =
    (let ys = years timeData; built = builtUpTrend timeData in
     if length ys < 3 then None
     else
       let lastIdx = length ys - 1;
           startIdx = (if int (length ys) - 3 \<ge> 0 then length ys - 3 else 0);
           timeSpan = real (ys ! lastIdx) - real (ys ! startIdx);
           urbanChange = built ! lastIdx - built ! startIdx;
           rawRate = urbanChange / timeSpan;
           reduce = (policyIntensity / 100) * 0.60;
           annualRate = rawRate * (1 - reduce);
           yearsToProject = 2;
           projectedUrban = built ! lastIdx + (annualRate * real yearsToProject);
           projectedIncrease = projectedUrban - built ! lastIdx
       in Some \<lparr> targetYear = decimal (ys ! lastIdx) @ decimal yearsToProject,
                 projectedArea = toFixed 1 projectedUrban,
                 increase = toFixed 1 projectedIncrease,
                 riskLevel = (if projectedIncrease > 10 then ''Critical''
                              else if projectedIncrease > 5 then ''High'' else ''Low''),
                 proj_color = (if projectedIncrease > 10 then ''#EF4444''
                              else if projectedIncrease > 5 then ''#F59E0B'' else ''#10B981''),
                 reduction = (if reduce > 0 then Some (toFixed 0 (reduce * 100)) else None),
                 savedArea = (if reduce > 0
                              then Some (toFixed 1 ((urbanChange / timeSpan * real yearsToProject)
                                                     - projectedIncrease))
                              else None) \<rparr>)"

section \<open>VelocityAnalyzer\<close>

text \<open>
  A field of the result is either a number (the literal \<^verbatim>\<open>0\<close> of the early return)
  or the string that \<^verbatim>\<open>toFixed\<close> produced. \<^verbatim>\<open>status\<close> is written without its
  emoji. The component calls the function on \<open>builtUpTrend\<close> and \<open>years\<close>, whose years
  are distinct.
\<close>

datatype js_value = Num real | Str fixed

fun valueOf :: "js_value \<Rightarrow> real" where
  "valueOf (Num x) = x"
| "valueOf (Str s) = toNumber s"

record velocity_metrics =
  velocity :: js_value
  acceleration :: js_value
  status :: string
  color :: string

definition getVelocityMetrics :: "real list \<Rightarrow> nat list \<Rightarrow> velocity_metrics" where
  "getVelocityMetrics trendValues ys =
    (if length trendValues < 3
     then \<lparr> velocity = Num 0, acceleration = Num 0, status = ''Stable'', color = ''#6B7280'' \<rparr>
     else
       let n = length trendValues;
           currentArea = trendValues ! (n - 1);
           prevArea = trendValues ! (n - 2);
           prev2Area = trendValues ! (n - 3);
           currentYear = real (ys ! (n - 1));
           prevYear = real (ys ! (n - 2));
           prev2Year = real (ys ! (n - 3));
           vCurrent = (currentArea - prevArea) / (currentYear - prevYear);
           vPrev = (prevArea - prev2Area) / (prevYear - prev2Year);
           accel = vCurrent - vPrev
       in \<lparr> velocity = Str (toFixed 1 vCurrent),
            acceleration = Str (toFixed 2 accel),
            status = (if accel > 0.5 then ''Rapid Acceleration''
                      else if accel > 0 then ''Accelerating''
                      else if accel < - 0.5 then ''Rapid Deceleration''
                      else if accel < 0 then ''Decelerating''
                      else ''Stable''),
            color = (if accel > 0.5 then ''#EF4444''
                      else if accel > 0 then ''#F59E0B''
                      else if accel < - 0.5 then ''#10B981''
                      else if accel < 0 then ''#3B82F6''
                      else ''#6B7280'') \<rparr>)"

definition urbanMetrics :: "ts_point list \<Rightarrow> velocity_metrics" where
  "urbanMetrics timeData = getVelocityMetrics (builtUpTrend timeData) (years timeData)"

section \<open>SurveyBudgetOptimizer\<close>

text \<open>
  \<^verbatim>\<open>xs.slice(start, stop)\<close> with integer arguments: a negative index counts from the
  end, and both indices are clamped to the array. \<^verbatim>\<open>xs.slice(start)\<close> runs to the end.
\<close>

definition slice :: "int \<Rightarrow> int \<Rightarrow> 'a list \<Rightarrow> 'a list" where
  "slice start stop xs =
    (let len = int (length xs);
         k = (if start < 0 then max (len + start) 0 else min start len);
         final = (if stop < 0 then max (len + stop) 0 else min stop len)
     in take (nat (final - k)) (drop (nat k) xs))"

definition slice_from :: "int \<Rightarrow> 'a list \<Rightarrow> 'a list" where
  "slice_from start xs = slice start (int (length xs)) xs"

definition surveyCostPerSite :: int where
  "surveyCostPerSite = 1200"

record survey_task =
  site_from :: string
  site_to :: string
  site_confidence :: real
  site_area_sq_km :: real
  site_id :: string

record survey_allocation =
  selected :: "survey_task list"
  deferredCount :: nat
  totalCost :: int
  maxPossible :: int

text \<open>
  Reading \<^verbatim>\<open>s.history[s.history.length-1].from\<close> throws a \<^verbatim>\<open>TypeError\<close> when the
  history is empty; that is the only way the function can fail.
\<close>

datatype js_error = TypeError

definition survey_site :: "evolution \<Rightarrow> js_error + survey_task" where
  "survey_site s =
    (if history s = [] then Inl TypeError
     else let latest = history s ! (length (history s) - 1)
          in Inr \<lparr> site_from = from_class latest,
                    site_to = to_class latest,
                    site_confidence = confidence latest,
                    site_area_sq_km = latestFlow s,
                    site_id = transition s \<rparr>)"

fun map_sites :: "evolution list \<Rightarrow> js_error + survey_task list" where
  "map_sites [] = Inr []"
| "map_sites (s # rest) =
     (case survey_site s of
        Inl e \<Rightarrow> Inl e
      | Inr t \<Rightarrow> (case map_sites rest of Inl e \<Rightarrow> Inl e | Inr ts \<Rightarrow> Inr (t # ts)))"

text \<open>
  The function reads \<^verbatim>\<open>transitionTrends\<close> and the state \<^verbatim>\<open>budget\<close>; both are
  parameters here. The budget is an integer: its only setter stores
  \<^verbatim>\<open>Math.max(0, parseInt(e.target.value) || 0)\<close>, and its initial value is 5000.
\<close>

definition setBudget :: "int option \<Rightarrow> int" where
  "setBudget parsed = max 0 (case parsed of Some v \<Rightarrow> v | None \<Rightarrow> 0)"

text \<open>
  The budget the function reads is the state \<^verbatim>\<open>useState(5000)\<close> after the changes
  the user has made to the input: each change passes what \<^verbatim>\<open>parseInt\<close> read
  (\<open>None\<close> when it read no number) to the setter, which replaces the state.
\<close>

definition initialBudget :: int where
  "initialBudget = 5000"

definition budget_after :: "int option list \<Rightarrow> int" where
  "budget_after changes = fold (\<lambda>parsed current. setBudget parsed) changes initialBudget"

definition getBudgetOptimizedSurveys :: "evolution list \<Rightarrow> int \<Rightarrow> js_error + survey_allocation" where
  "getBudgetOptimizedSurveys transitionTrends budget =
    (let candidates = filter (\<lambda>d. toNumber (cpri d) < 0.45) transitionTrends;
         rankedCandidates = array_sort (\<lambda>a b. latestFlow b - latestFlow a \<le> 0) candidates;
         maxSites = \<lfloor>real_of_int budget / real_of_int surveyCostPerSite\<rfloor>;
         selectedSites = slice 0 maxSites rankedCandidates;
         deferredSites = slice_from maxSites rankedCandidates
     in case map_sites selectedSites of
          Inl e \<Rightarrow> Inl e
        | Inr tasks \<Rightarrow>
            Inr \<lparr> selected = tasks,
                  deferredCount = length deferredSites,
                  totalCost = int (length selectedSites) * surveyCostPerSite,
                  maxPossible = maxSites \<rparr>)"

section \<open>Filtered records, GovernanceAlertEngine and PriorityRanker\<close>

text \<open>
  A row of the transition table (\<^verbatim>\<open>year, from, to, area_sq_km, confidence\<close>), with
  its numeric fields as the numbers they coerce to.
\<close>

record lulc_transition =
  t_year :: nat
  t_from :: string
  t_to :: string
  t_area_sq_km :: real
  t_confidence :: real

definition filteredData :: "real \<Rightarrow> string \<Rightarrow> lulc_transition list \<Rightarrow> lulc_transition list" where
  "filteredData minConfidence activeScenario data =
     filter (\<lambda>d.
        if t_confidence d < minConfidence then False
        else if activeScenario = ''urban'' then t_to d = ''Built-up''
        else if activeScenario = ''eco''
          then (t_from d = ''Forest'' \<or> t_from d = ''Water Body'')
             \<and> (t_to d = ''Built-up'' \<or> t_to d = ''Barren'')
        else True) data"

text \<open>An alert without its display text (\<^verbatim>\<open>desc\<close>, \<^verbatim>\<open>icon\<close>).\<close>

record alert =
  alert_type :: string
  title :: string
  items :: "lulc_transition list"

definition generateGovernanceAlerts ::
    "string \<Rightarrow> lulc_transition list \<Rightarrow> real list \<Rightarrow> nat list \<Rightarrow> alert list" where
  "generateGovernanceAlerts activePersona data vals yrs =
    (let ecoRiskItems = filter (\<lambda>d.
            (t_from d = ''Forest'' \<or> t_from d = ''Water Body'')
          \<and> (t_to d = ''Built-up'' \<or> t_to d = ''Barren'')
          \<and> t_confidence d > 0.80) data;
         rule1 = (if length ecoRiskItems > 0
                  then [\<lparr> alert_type = ''high'',
                          title = (if activePersona = ''environmental_officer''
                                   then ''Critical Ecosystem Loss'' else ''Ecological Risk''),
                          items = ecoRiskItems \<rparr>]
                  else []);
         urbanSprawl = filter (\<lambda>d. t_from d = ''Agriculture'' \<and> t_to d = ''Built-up'') data;
         totalSprawlArea = foldl (\<lambda>acc curr. acc + t_area_sq_km curr) 0 urbanSprawl;
         rule2 = (if totalSprawlArea > 5
                  then [\<lparr> alert_type = ''medium'',
                          title = (if activePersona = ''urban_planner''
                                   then ''Unplanned Sprawl Detected'' else ''Urban Sprawl Alert''),
                          items = urbanSprawl \<rparr>]
                  else []);
         lowConfChanges = filter (\<lambda>d. t_confidence d < 0.60) data;
         rule3 = (if length lowConfChanges > 2
                  then [\<lparr> alert_type = ''low'', title = ''Data Gap Identified'',
                          items = lowConfChanges \<rparr>]
                  else []);
         rule4 = (if length vals \<ge> 4
                  then
                    let n = length vals;
                        baselineYears = real (yrs ! (n - 2)) - real (yrs ! 0);
                        baselineChange = vals ! (n - 2) - vals ! 0;
                        baselineRate = baselineChange / baselineYears;
                        recentYears = real (yrs ! (n - 1)) - real (yrs ! (n - 2));
                        recentChange = vals ! (n - 1) - vals ! (n - 2);
                        recentRate = recentChange / recentYears;
                        bdi = (if baselineRate \<noteq> 0 then recentRate / baselineRate else 0)
                    in if bdi > 1.5
                       then [\<lparr> alert_type = ''high'', title = ''Abnormal Growth Spike'', items = [] \<rparr>]
                       else if bdi > 1.2
                       then [\<lparr> alert_type = ''medium'', title = ''Growth Acceleration'', items = [] \<rparr>]
                       else []
                  else [])
     in rule1 @ rule2 @ rule3 @ rule4)"

text \<open>
  The state of the component: the two loaded tables, the user's settings, and the source
  of the \<^verbatim>\<open>Math.random()\<close> results that the component draws for display
  identifiers and plot jitter.
\<close>

record app_state =
  data :: "lulc_transition list"
  timeData :: "ts_point list"
  activePersona :: string
  activeScenario :: string
  minConfidence :: real
  policyIntensity :: real
  budget :: int
  rankMode :: string
  random :: "nat \<Rightarrow> real"

definition getPolicyWeight :: "string \<Rightarrow> string \<Rightarrow> string \<Rightarrow> real" where
  "getPolicyWeight persona from to =
    (if persona = ''environmental_officer''
       then (if from = ''Forest'' \<or> from = ''Water Body'' then 3.0 else 1.0)
     else if persona = ''urban_planner''
       then (if to = ''Built-up'' then 2.0 else 1.0)
     else if from = ''Forest'' \<and> to = ''Built-up'' then 1.5
     else if from = ''Water Body'' then 2.0
     else if from = ''Agriculture'' \<and> to = ''Built-up'' then 1.2
     else 1.0)"

text \<open>\<^verbatim>\<open>{ ...d, impactScore: score, weight }\<close>: the row with two more fields.\<close>

record prioritized =
  row :: lulc_transition
  impactScore :: fixed
  weight :: real

definition score_row :: "string \<Rightarrow> lulc_transition \<Rightarrow> prioritized" where
  "score_row persona d =
    (let w = getPolicyWeight persona (t_from d) (t_to d);
         score = toFixed 1 (t_area_sq_km d * t_confidence d * w)
     in \<lparr> row = d, impactScore = score, weight = w \<rparr>)"

definition prioritizedData :: "app_state \<Rightarrow> prioritized list" where
  "prioritizedData s =
     array_sort (\<lambda>a b. toNumber (impactScore b) - toNumber (impactScore a) \<le> 0)
       (map (score_row (activePersona s))
            (filteredData (minConfidence s) (activeScenario s) (data s)))"

definition getRankedData :: "app_state \<Rightarrow> prioritized list" where
  "getRankedData s =
    (let sorted = prioritizedData s;
         sorted = (if rankMode s = ''area''
                   then array_sort (\<lambda>a b. t_area_sq_km (row b) - t_area_sq_km (row a) \<le> 0) sorted
                   else sorted);
         sorted = (if rankMode s = ''confidence''
                   then array_sort (\<lambda>a b. t_confidence (row b) - t_confidence (row a) \<le> 0) sorted
                   else sorted)
     in sorted)"

definition governanceAlerts :: "app_state \<Rightarrow> alert list" where
  "governanceAlerts s =
     generateGovernanceAlerts (activePersona s)
       (filteredData (minConfidence s) (activeScenario s) (data s))
       (builtUpTrend (timeData s)) (years (timeData s))"

section \<open>Sample inputs\<close>

text \<open>A two-year table that holds only Forest rows, with the given areas.\<close>

definition forest_table :: "real \<Rightarrow> real \<Rightarrow> ts_point list" where
  "forest_table f0 f1 =
    [ \<lparr> ts_year = 2020, ts_lulc_class = ''Forest'', ts_area_sq_km = f0, ts_confidence = 0.9 \<rparr>,
      \<lparr> ts_year = 2024, ts_lulc_class = ''Forest'', ts_area_sq_km = f1, ts_confidence = 0.9 \<rparr> ]"


text \<open>A table whose two years have different numbers of digits.\<close>

definition millennium_table :: "ts_point list" where
  "millennium_table =
    [ \<lparr> ts_year = 999, ts_lulc_class = ''Built-up'', ts_area_sq_km = 10, ts_confidence = 0.9 \<rparr>,
      \<lparr> ts_year = 1000, ts_lulc_class = ''Built-up'', ts_area_sq_km = 12, ts_confidence = 0.9 \<rparr> ]"

text \<open>A table with three years of Built-up rows.\<close>

definition urban_table :: "ts_point list" where
  "urban_table =
    [ \<lparr> ts_year = 2020, ts_lulc_class = ''Built-up'', ts_area_sq_km = 10, ts_confidence = 0.9 \<rparr>,
      \<lparr> ts_year = 2022, ts_lulc_class = ''Built-up'', ts_area_sq_km = 14, ts_confidence = 0.9 \<rparr>,
      \<lparr> ts_year = 2024, ts_lulc_class = ''Built-up'', ts_area_sq_km = 20, ts_confidence = 0.9 \<rparr> ]"


text \<open>
  Three evolutions with the readiness indices 0.58, 0.39 and 0.11, each with a one-record
  history.
\<close>

definition sample_evolution :: "flow \<Rightarrow> nat \<Rightarrow> evolution" where
  "sample_evolution latest hundredths =
    \<lparr> transition = transition_key latest,
      history = [latest],
      totalVolume = toFixed 1 (area latest),
      latestFlow = area latest,
      trend = ''Stable'',
      trendColor = ''#64748B'',
      deviationRatio = toFixed 1 1,
      anomaly = ''Normal'',
      anomalyColor = ''#64748B'',
      isConfStable = True,
      confRange = toFixed 2 0,
      cpri = Fixed False 2 hundredths,
      readiness = ''Field Validation'',
      readinessColor = ''#EF4444'' \<rparr>"

definition agriculture_flow :: flow where
  "agriculture_flow = \<lparr> year = 2024, from_class = ''Agriculture'', to_class = ''Built-up'',
                          area = 21.6, confidence = 0.85 \<rparr>"

definition forest_flow :: flow where
  "forest_flow = \<lparr> year = 2024, from_class = ''Forest'', to_class = ''Built-up'',
                     area = 14.2, confidence = 0.82 \<rparr>"

definition water_flow :: flow where
  "water_flow = \<lparr> year = 2024, from_class = ''Water'', to_class = ''Barren'',
                    area = 1.3, confidence = 0.75 \<rparr>"

definition sample_trends :: "evolution list" where
  "sample_trends =
    [ sample_evolution agriculture_flow 58,
      sample_evolution forest_flow 39,
      sample_evolution water_flow 11 ]"

text \<open>
  Three rows of the transition table (the first is the Water row of the data schema's
  sample), and two states of the component that agree on the table, the persona, the
  scenario, the confidence threshold and the rank mode and differ in everything else.
\<close>

definition water_loss_row :: lulc_transition where
  "water_loss_row = \<lparr> t_year = 2023, t_from = ''Water'', t_to = ''Barren'',
                        t_area_sq_km = 1.3, t_confidence = 0.90 \<rparr>"

definition forest_row :: lulc_transition where
  "forest_row = \<lparr> t_year = 2024, t_from = ''Forest'', t_to = ''Barren'',
                    t_area_sq_km = 4, t_confidence = 0.5 \<rparr>"

definition barren_row :: lulc_transition where
  "barren_row = \<lparr> t_year = 2023, t_from = ''Barren'', t_to = ''Agriculture'',
                    t_area_sq_km = 4, t_confidence = 0.5 \<rparr>"

definition first_state :: app_state where
  "first_state = \<lparr> data = [water_loss_row, forest_row, barren_row], timeData = [],
                     activePersona = ''policy_maker'', activeScenario = ''all'',
                     minConfidence = 0, policyIntensity = 0, budget = 5000,
                     rankMode = ''area'', random = (\<lambda>n. 0) \<rparr>"

definition second_state :: app_state where
  "second_state = \<lparr> data = [water_loss_row, forest_row, barren_row], timeData = forest_table 10 12,
                      activePersona = ''policy_maker'', activeScenario = ''all'',
                      minConfidence = 0, policyIntensity = 40, budget = 0,
                      rankMode = ''area'', random = (\<lambda>n. 1 / 2) \<rparr>"



section \<open>Properties of the array primitives\<close>

lemma set_insert_sorted: "set (insert_sorted le x ys) = insert x (set ys)"
  by (induction ys) auto

lemma set_array_sort: "set (array_sort le xs) = set xs"
  unfolding array_sort_def by (induction xs) (auto simp: set_insert_sorted)

lemma length_insert_sorted: "length (insert_sorted le x ys) = Suc (length ys)"
  by (induction ys) auto

lemma length_array_sort: "length (array_sort le xs) = length xs"
  unfolding array_sort_def by (induction xs) (auto simp: length_insert_sorted)

lemma array_sort_Nil_iff: "array_sort le xs = [] \<longleftrightarrow> xs = []"
  using length_array_sort [of le xs] by (metis length_0_conv)

lemma ordered_insert_sorted:
  assumes total: "\<And>a b. le a b \<or> le b a"
    and trans: "\<And>a b c. le a b \<Longrightarrow> le b c \<Longrightarrow> le a c"
    and ys: "sorted_wrt le ys"
  shows "sorted_wrt le (insert_sorted le x ys)"
  using ys
proof (induction ys)
  case Nil
  show ?case by simp
next
  case (Cons y ys)
  show ?case
  proof (cases "le x y")
    case True
    with Cons.prems trans show ?thesis by auto
  next
    case False
    with total have "le y x" by blast
    with False Cons show ?thesis by (auto simp: set_insert_sorted)
  qed
qed

lemma ordered_array_sort:
  assumes "\<And>a b. le a b \<or> le b a"
    and "\<And>a b c. le a b \<Longrightarrow> le b c \<Longrightarrow> le a c"
  shows "sorted_wrt le (array_sort le xs)"
  unfolding array_sort_def
proof (induction xs)
  case Nil
  show ?case by simp
next
  case (Cons x xs)
  have "sorted_wrt le (insert_sorted le x (foldr (insert_sorted le) xs []))"
    using assms(1) assms(2) Cons by (rule ordered_insert_sorted)
  then show ?case by simp
qed

lemma filter_insert_sorted:
  assumes "\<And>a b. P a \<Longrightarrow> P b \<Longrightarrow> le a b"
  shows "filter P (insert_sorted le x ys) = filter P (x # ys)"
  using assms by (induction ys) auto

lemma filter_array_sort:
  assumes "\<And>a b. P a \<Longrightarrow> P b \<Longrightarrow> le a b"
  shows "filter P (array_sort le xs) = filter P xs"
  unfolding array_sort_def
proof (induction xs)
  case Nil
  show ?case by simp
next
  case (Cons x xs)
  have "filter P (insert_sorted le x (foldr (insert_sorted le) xs [])) =
        filter P (x # foldr (insert_sorted le) xs [])"
    by (rule filter_insert_sorted) (rule assms)
  with Cons show ?case by simp
qed


section \<open>Properties of the grouping\<close>

lemma add_to_group_inv:
  assumes "\<forall>(k, g) \<in> set acc. g \<noteq> [] \<and> set g \<subseteq> S" and "d \<in> S"
  shows "\<forall>(k, g) \<in> set (add_to_group d acc). g \<noteq> [] \<and> set g \<subseteq> S"
  using assms by (induction d acc rule: add_to_group.induct) auto

lemma fold_add_to_group_inv:
  assumes "\<forall>(k, g) \<in> set acc. g \<noteq> [] \<and> set g \<subseteq> S" and "set ds \<subseteq> S"
  shows "\<forall>(k, g) \<in> set (fold add_to_group ds acc). g \<noteq> [] \<and> set g \<subseteq> S"
  using assms
proof (induction ds arbitrary: acc)
  case Nil
  then show ?case by simp
next
  case (Cons d ds)
  from Cons.prems have "\<forall>(k, g) \<in> set (add_to_group d acc). g \<noteq> [] \<and> set g \<subseteq> S"
    by (intro add_to_group_inv) auto
  with Cons show ?case by simp
qed

lemma group_by_key_inv:
  "(k, g) \<in> set (group_by_key flows) \<Longrightarrow> g \<noteq> [] \<and> set g \<subseteq> set flows"
  using fold_add_to_group_inv [of "[]" "set flows" flows]
  by (auto simp: group_by_key_def)


section \<open>Properties of the year axis\<close>

lemma fold_set_add:
  "distinct acc \<Longrightarrow>
   distinct (fold (\<lambda>x s. if x \<in> set s then s else s @ [x]) xs acc)
   \<and> set (fold (\<lambda>x s. if x \<in> set s then s else s @ [x]) xs acc) = set acc \<union> set xs"
  by (induction xs arbitrary: acc) auto

lemma distinct_new_Set: "distinct (new_Set xs)"
  using fold_set_add [of "[]" xs] by (simp add: new_Set_def)

lemma set_new_Set: "set (new_Set xs) = set xs"
  using fold_set_add [of "[]" xs] by (simp add: new_Set_def)

lemma set_years: "set (years td) = ts_year ` set td"
  by (simp add: years_def set_array_sort set_new_Set)

lemma length_years: "length (years td) = card (ts_year ` set td)"
proof -
  have "length (years td) = length (new_Set (map ts_year td))"
    by (simp add: years_def length_array_sort)
  also have "\<dots> = card (set (new_Set (map ts_year td)))"
    by (simp add: distinct_card distinct_new_Set)
  finally show ?thesis
    by (simp add: set_new_Set)
qed

lemma length_class_trend: "length (class_trend c td) = length (years td)"
  by (simp add: class_trend_def)

lemma years_forest_table: "years (forest_table f0 f1) = [2020, 2024]"
  by (simp add: forest_table_def years_def new_Set_def array_sort_def decimal.simps)

lemma forestTrend_forest_table: "forestTrend (forest_table f0 f1) = [f0, f1]"
  by (simp add: forestTrend_def class_trend_def years_forest_table) (simp add: forest_table_def)

lemma waterTrend_forest_table: "waterTrend (forest_table f0 f1) = [0, 0]"
  by (simp add: waterTrend_def class_trend_def years_forest_table) (simp add: forest_table_def)


lemma distinct_years: "distinct (years td)"
proof -
  have "length (years td) = card (set (years td))"
    by (simp add: length_years set_years)
  then show ?thesis
    by (simp add: card_distinct)
qed

lemma class_trend_absent:
  assumes "i < length (years td)"
    and "\<forall>d \<in> set td. \<not> (ts_year d = years td ! i \<and> ts_lulc_class d = c)"
  shows "class_trend c td ! i = 0"
proof -
  have "find (\<lambda>d. ts_year d = years td ! i \<and> ts_lulc_class d = c) td = None"
    using assms(2) by (simp add: find_None_iff)
  with assms(1) show ?thesis
    by (simp add: class_trend_def)
qed

lemma years_urban_table: "years urban_table = [2020, 2022, 2024]"
  by (simp add: urban_table_def years_def new_Set_def array_sort_def decimal.simps)

lemma builtUpTrend_urban_table: "builtUpTrend urban_table = [10, 14, 20]"
  by (simp add: builtUpTrend_def class_trend_def years_urban_table) (simp add: urban_table_def)


section \<open>Properties of the survey selection\<close>

lemma slice_prefix: "slice 0 m xs = take (nat (if m < 0 then max (int (length xs) + m) 0 else min m (int (length xs)))) xs"
  by (simp add: slice_def Let_def)

lemma slice_from_suffix: "slice_from m xs = drop (nat (if m < 0 then max (int (length xs) + m) 0 else min m (int (length xs)))) xs"
  by (simp add: slice_from_def slice_def Let_def)

lemma length_slice_split: "length (slice 0 m xs) + length (slice_from m xs) = length xs"
  unfolding slice_prefix slice_from_suffix by simp

lemma length_slice_bound: "0 \<le> m \<Longrightarrow> int (length (slice 0 m xs)) \<le> m"
  unfolding slice_prefix by simp

lemma set_slice: "set (slice 0 m xs) \<subseteq> set xs"
  unfolding slice_prefix by (rule set_take_subset)

lemma map_sites_total:
  "\<forall>s \<in> set xs. history s \<noteq> [] \<Longrightarrow> \<exists>ts. map_sites xs = Inr ts \<and> length ts = length xs"
  by (induction xs) (auto simp: survey_site_def Let_def)

lemma history_evolution_of: "grp \<noteq> [] \<Longrightarrow> history (evolution_of key grp) \<noteq> []"
  by (simp add: evolution_of_def Let_def array_sort_Nil_iff)

lemma history_analyzeTransitionEvolution:
  "e \<in> set (analyzeTransitionEvolution flows) \<Longrightarrow> history e \<noteq> []"
  using group_by_key_inv [of _ _ flows]
  by (auto simp: analyzeTransitionEvolution_def set_array_sort evolutions_by_key_def
      history_evolution_of)

lemma candidates_sample_trends:
  "length (filter (\<lambda>d. toNumber (cpri d) < 0.45) sample_trends) = 2"
  by (simp add: sample_trends_def sample_evolution_def toNumber_def)

lemma fold_setBudget_nonneg:
  "0 \<le> b \<Longrightarrow> 0 \<le> fold (\<lambda>parsed current. setBudget parsed) changes b"
  by (induction changes arbitrary: b) (simp_all add: setBudget_def)

lemma budget_after_nonneg: "0 \<le> budget_after changes"
  unfolding budget_after_def by (rule fold_setBudget_nonneg) (simp add: initialBudget_def)

lemma budget_after_snoc: "budget_after (changes @ [parsed]) = setBudget parsed"
  by (simp add: budget_after_def)

lemma allocation_for_budget:
  assumes "\<forall>e \<in> set trends. history e \<noteq> []"
  shows "\<exists>r. getBudgetOptimizedSurveys trends b = Inr r
     \<and> length (selected r) + deferredCount r = length (filter (\<lambda>d. toNumber (cpri d) < 0.45) trends)
     \<and> totalCost r = int (length (selected r)) * surveyCostPerSite
     \<and> (0 \<le> b \<longrightarrow> int (length (selected r)) \<le> \<lfloor>real_of_int b / real_of_int surveyCostPerSite\<rfloor>)"
proof -
  define ranked where "ranked = array_sort (\<lambda>a b. latestFlow b - latestFlow a \<le> 0)
     (filter (\<lambda>d. toNumber (cpri d) < 0.45) trends)"
  define m where "m = \<lfloor>real_of_int b / real_of_int surveyCostPerSite\<rfloor>"
  have "set (slice 0 m ranked) \<subseteq> set trends"
    using set_slice [of m ranked] by (auto simp: ranked_def set_array_sort)
  with assms have "\<forall>s \<in> set (slice 0 m ranked). history s \<noteq> []"
    by blast
  then obtain ts where ts: "map_sites (slice 0 m ranked) = Inr ts"
    and len: "length ts = length (slice 0 m ranked)"
    using map_sites_total by blast
  have r: "getBudgetOptimizedSurveys trends b =
      Inr \<lparr> selected = ts, deferredCount = length (slice_from m ranked),
            totalCost = int (length (slice 0 m ranked)) * surveyCostPerSite, maxPossible = m \<rparr>"
    using ts by (simp add: getBudgetOptimizedSurveys_def Let_def ranked_def m_def)
  have total: "length ts + length (slice_from m ranked) = length (filter (\<lambda>d. toNumber (cpri d) < 0.45) trends)"
    using length_slice_split [of m ranked] len by (simp add: ranked_def length_array_sort)
  have bound: "0 \<le> b \<longrightarrow> int (length ts) \<le> m"
  proof
    assume "0 \<le> b"
    then have "0 \<le> m"
      by (simp add: m_def surveyCostPerSite_def)
    then show "int (length ts) \<le> m"
      using length_slice_bound [of m ranked] len by simp
  qed
  from r total bound len show ?thesis
    by (simp add: m_def)
qed

lemma empty_selection_below_cost:
  assumes "0 \<le> b" and "b < surveyCostPerSite"
  shows "\<exists>r. getBudgetOptimizedSurveys trends b = Inr r \<and> selected r = [] \<and> totalCost r = 0"
proof -
  from assms have "\<lfloor>real_of_int b / real_of_int surveyCostPerSite\<rfloor> = 0"
    by (simp add: surveyCostPerSite_def floor_eq_iff)
  then show ?thesis
    by (simp add: getBudgetOptimizedSurveys_def Let_def slice_def)
qed

section \<open>The order of the year axis\<close>

lemma code_unit_less_irrefl: "\<not> code_unit_less s s"
  by (induction s) auto

lemma code_unit_less_total: "\<not> code_unit_less b a \<or> \<not> code_unit_less a b"
  by (induction a b rule: code_unit_less.induct) auto

lemma code_unit_less_trans:
  "code_unit_less a b \<Longrightarrow> code_unit_less b c \<Longrightarrow> code_unit_less a c"
proof (induction a b arbitrary: c rule: code_unit_less.induct)
  case 1
  then show ?case by simp
next
  case (2 d ds)
  then show ?case by (cases c) auto
next
  case (3 c cs)
  then show ?case by simp
next
  case (4 x xs y ys)
  then show ?case
    by (cases c) (auto split: if_splits)
qed

lemma code_unit_linear: "code_unit_less a b \<or> a = b \<or> code_unit_less b a"
  by (induction a b rule: code_unit_less.induct) (auto simp: of_char_eq_iff)

lemma code_unit_le_trans:
  assumes "\<not> code_unit_less b a" and "\<not> code_unit_less c b"
  shows "\<not> code_unit_less c a"
proof
  assume ca: "code_unit_less c a"
  from code_unit_linear [of a b] assms(1) consider "code_unit_less a b" | "a = b" by blast
  then show False
  proof cases
    case 1
    with ca have "code_unit_less c b" by (rule code_unit_less_trans)
    with assms(2) show False by simp
  next
    case 2
    with ca assms(2) show False by simp
  qed
qed

text \<open>The year axis is ordered by the strings of the years.\<close>

lemma years_ordered_as_strings:
  "sorted_wrt (\<lambda>a b. \<not> code_unit_less (decimal b) (decimal a)) (years td)"
  unfolding years_def
proof (rule ordered_array_sort)
  show "\<not> code_unit_less (decimal b) (decimal a) \<or> \<not> code_unit_less (decimal a) (decimal b)" for a b
    by (rule code_unit_less_total)
  show "\<not> code_unit_less (decimal c) (decimal a)"
    if "\<not> code_unit_less (decimal b) (decimal a)" "\<not> code_unit_less (decimal c) (decimal b)" for a b c
    using that by (rule code_unit_le_trans)
qed


lemma digit_code_unit:
  assumes "d < 10"
  shows "(of_char (''0123456789'' ! d) :: nat) = 48 + d"
proof -
  from assms consider "d = 0" | "d = 1" | "d = 2" | "d = 3" | "d = 4"
    | "d = 5" | "d = 6" | "d = 7" | "d = 8" | "d = 9"
    by atomize_elim arith
  then show ?thesis
    by cases simp_all
qed

lemma decimal_small: "n < 10 \<Longrightarrow> decimal n = [''0123456789'' ! n]"
  by (simp add: decimal.simps [of n])

lemma decimal_large:
  "\<not> n < 10 \<Longrightarrow> decimal n = decimal (n div 10) @ [''0123456789'' ! (n mod 10)]"
  by (simp add: decimal.simps [of n])

lemma decimal_not_Nil: "decimal n \<noteq> []"
  by (cases "n < 10") (simp_all add: decimal_small decimal_large)

lemma length_decimal_one: "length (decimal n) = Suc 0 \<longleftrightarrow> n < 10"
  using decimal_not_Nil [of "n div 10"]
  by (cases "n < 10") (simp_all add: decimal_small decimal_large)

lemma code_unit_less_snoc:
  assumes "length xs = length ys"
  shows "code_unit_less (xs @ [a]) (ys @ [b])
     \<longleftrightarrow> code_unit_less xs ys \<or> (\<not> code_unit_less ys xs \<and> (of_char a :: nat) < of_char b)"
  using assms by (induction xs ys rule: list_induct2) auto

lemma two_digit_order:
  fixes q r q' r' :: nat
  assumes "r < 10" and "r' < 10"
  shows "10 * q + r < 10 * q' + r' \<longleftrightarrow> q < q' \<or> (\<not> q' < q \<and> r < r')"
  using assms by arith

lemma div_mod_order:
  fixes n m :: nat
  shows "n < m \<longleftrightarrow> n div 10 < m div 10 \<or> (\<not> m div 10 < n div 10 \<and> n mod 10 < m mod 10)"
  using two_digit_order [of "n mod 10" "m mod 10" "n div 10" "m div 10"]
  by simp

lemma decimal_order:
  "length (decimal n) = length (decimal m) \<Longrightarrow>
     (code_unit_less (decimal n) (decimal m) \<longleftrightarrow> n < m)
   \<and> (code_unit_less (decimal m) (decimal n) \<longleftrightarrow> m < n)"
proof (induction n arbitrary: m rule: decimal.induct)
  case (1 n)
  show ?case
  proof (cases "n < 10")
    case True
    then have "length (decimal n) = Suc 0"
      by (simp add: length_decimal_one)
    with "1.prems" have "length (decimal m) = Suc 0"
      by simp
    then have m: "m < 10"
      unfolding length_decimal_one .
    with True show ?thesis
      by (simp add: decimal_small digit_code_unit)
  next
    case False
    then have "length (decimal n) \<noteq> Suc 0"
      by (simp add: length_decimal_one)
    with "1.prems" have "length (decimal m) \<noteq> Suc 0"
      by simp
    then have m: "\<not> m < 10"
      unfolding length_decimal_one .
    from False m "1.prems" have len: "length (decimal (n div 10)) = length (decimal (m div 10))"
      by (simp add: decimal_large)
    have ih: "(code_unit_less (decimal (n div 10)) (decimal (m div 10)) \<longleftrightarrow> n div 10 < m div 10)
       \<and> (code_unit_less (decimal (m div 10)) (decimal (n div 10)) \<longleftrightarrow> m div 10 < n div 10)"
      using False len by (rule "1.IH")
    have dn: "n mod 10 < 10" and dm: "m mod 10 < 10"
      by simp_all
    have "code_unit_less (decimal n) (decimal m)
        \<longleftrightarrow> n div 10 < m div 10 \<or> (\<not> m div 10 < n div 10 \<and> n mod 10 < m mod 10)"
      using len ih by (simp add: decimal_large False m code_unit_less_snoc digit_code_unit)
    moreover have "code_unit_less (decimal m) (decimal n)
        \<longleftrightarrow> m div 10 < n div 10 \<or> (\<not> n div 10 < m div 10 \<and> m mod 10 < n mod 10)"
      using len ih by (simp add: decimal_large False m code_unit_less_snoc digit_code_unit)
    ultimately show ?thesis
      using div_mod_order [of n m] div_mod_order [of m n] by blast
  qed
qed

text \<open>
  Where all years of a table are written with the same number of digits, the order of the
  strings is the order of the numbers; four-digit years are the common case.
\<close>

lemma years_ascending_same_width:
  assumes "\<forall>a \<in> set td. \<forall>b \<in> set td. length (decimal (ts_year a)) = length (decimal (ts_year b))"
  shows "sorted (years td)"
proof -
  have "sorted_wrt (\<lambda>a b. \<not> code_unit_less (decimal b) (decimal a)) (years td)"
    by (rule years_ordered_as_strings)
  then have "sorted_wrt (\<le>) (years td)"
  proof (rule sorted_wrt_mono_rel [rotated])
    fix a b
    assume a: "a \<in> set (years td)" and b: "b \<in> set (years td)"
      and le: "\<not> code_unit_less (decimal b) (decimal a)"
    from a obtain x where x: "x \<in> set td" "a = ts_year x"
      unfolding set_years by blast
    from b obtain y where y: "y \<in> set td" "b = ts_year y"
      unfolding set_years by blast
    from assms x y have "length (decimal a) = length (decimal b)"
      by blast
    then have "code_unit_less (decimal b) (decimal a) \<longleftrightarrow> b < a"
      using decimal_order [of a b] by blast
    with le show "a \<le> b"
      by simp
  qed
  then show ?thesis by simp
qed


lemma length_decimal_four:
  assumes "1000 \<le> n" and "n < 10000"
  shows "length (decimal n) = 4"
proof -
  have h: "n div 10 div 10 = n div 100" "n div 100 div 10 = n div 1000"
    by (simp_all add: div_mult2_eq [symmetric])
  have a: "\<not> n < 10" "\<not> n div 10 < 10"
    using assms by arith+
  have b: "\<not> n div 100 < 10"
    using assms by arith
  have c: "n div 1000 < 10"
    using assms by arith
  have "decimal n = decimal (n div 1000) @ [''0123456789'' ! (n div 100 mod 10)]
      @ [''0123456789'' ! (n div 10 mod 10)] @ [''0123456789'' ! (n mod 10)]"
    using a b by (simp add: decimal_large [of n] decimal_large [of "n div 10"]
        decimal_large [of "n div 100"] h)
  with c show ?thesis
    by (simp add: decimal_small)
qed

lemma years_ascending_four_digits:
  assumes "\<forall>d \<in> set td. 1000 \<le> ts_year d \<and> ts_year d < 10000"
  shows "sorted (years td)"
proof (rule years_ascending_same_width, intro ballI)
  fix a b
  assume "a \<in> set td" "b \<in> set td"
  with assms have "length (decimal (ts_year a)) = 4" "length (decimal (ts_year b)) = 4"
    by (blast intro: length_decimal_four)+
  then show "length (decimal (ts_year a)) = length (decimal (ts_year b))"
    by simp
qed


section \<open>TransitionEvolutionAnalyzer: range of the readiness index\<close>

lemma toFixed_unit:
  assumes "0 \<le> x" and "x \<le> 1"
  shows "0 \<le> toNumber (toFixed 2 x) \<and> toNumber (toFixed 2 x) \<le> 1"
proof -
  have "\<lfloor>x * 100 + 1 / 2\<rfloor> \<le> 100"
    using assms by (simp add: floor_le_iff)
  then have "real (nat \<lfloor>x * 100 + 1 / 2\<rfloor>) \<le> 100"
    by linarith
  with assms show ?thesis
    by (simp add: toFixed_def toNumber_def)
qed

lemma cpri_evolution_of:
  assumes "grp \<noteq> []"
    and "\<forall>d \<in> set grp. 0 \<le> area d \<and> 0 \<le> confidence d \<and> confidence d \<le> 1"
  shows "0 \<le> toNumber (cpri (evolution_of key grp)) \<and> toNumber (cpri (evolution_of key grp)) \<le> 1"
proof -
  define sorted where "sorted = array_sort (\<lambda>a b. year a - year b \<le> 0) grp"
  define latest where "latest = sorted ! (length sorted - 1)"
  define impact where "impact = min (log 10 (area latest + 1) / 2) 1"
  define trust :: real
    where "trust = (if math_max (map confidence sorted) - math_min (map confidence sorted) < 0.10 then 1.0 else 0.8)"
  have "sorted \<noteq> []"
    using assms(1) by (simp add: sorted_def array_sort_Nil_iff)
  then have "latest \<in> set sorted"
    by (simp add: latest_def)
  then have "latest \<in> set grp"
    by (simp add: sorted_def set_array_sort)
  with assms(2) have a: "0 \<le> area latest" and c: "0 \<le> confidence latest" "confidence latest \<le> 1"
    by auto
  from a have "0 \<le> log 10 (area latest + 1)"
    by simp
  then have i: "0 \<le> impact" "impact \<le> 1"
    by (simp_all add: impact_def)
  have t: "0 \<le> trust" "trust \<le> 1"
    by (simp_all add: trust_def)
  have "0 \<le> impact * trust" "impact * trust \<le> 1"
    using i t by (simp_all add: mult_le_one)
  then have "0 \<le> impact * trust * confidence latest" "impact * trust * confidence latest \<le> 1"
    using c by (simp_all add: mult_le_one)
  then have "0 \<le> toNumber (toFixed 2 (impact * trust * confidence latest))
     \<and> toNumber (toFixed 2 (impact * trust * confidence latest)) \<le> 1"
    by (rule toFixed_unit)
  moreover have "cpri (evolution_of key grp) = toFixed 2 (impact * trust * confidence latest)"
    by (simp add: evolution_of_def Let_def impact_def trust_def latest_def sorted_def)
  ultimately show ?thesis by simp
qed


text \<open>
  Claim C1. For every transition group that \<open>analyzeTransitionEvolution\<close> produces from
  records with \<open>area \<ge> 0\<close> and \<open>confidence\<close> in \<open>[0,1]\<close>, the number that the
  \<^verbatim>\<open>cpri\<close> string denotes lies in \<open>[0,1]\<close>.
\<close>

theorem cpri_in_unit_interval:
  assumes "\<forall>d \<in> set flows. 0 \<le> area d \<and> 0 \<le> confidence d \<and> confidence d \<le> 1"
  shows "\<forall>e \<in> set (analyzeTransitionEvolution flows). 0 \<le> toNumber (cpri e) \<and> toNumber (cpri e) \<le> 1"
proof
  fix e
  assume "e \<in> set (analyzeTransitionEvolution flows)"
  then have "e \<in> set (evolutions_by_key flows)"
    by (simp add: analyzeTransitionEvolution_def set_array_sort)
  then obtain k g where kg: "(k, g) \<in> set (group_by_key flows)" and e: "e = evolution_of k g"
    by (auto simp: evolutions_by_key_def)
  from kg have "g \<noteq> []" and "set g \<subseteq> set flows"
    using group_by_key_inv by blast+
  with assms have "\<forall>d \<in> set g. 0 \<le> area d \<and> 0 \<le> confidence d \<and> confidence d \<le> 1"
    by blast
  with \<open>g \<noteq> []\<close> show "0 \<le> toNumber (cpri e) \<and> toNumber (cpri e) \<le> 1"
    unfolding e by (rule cpri_evolution_of)
qed

theorem cpri_in_unit_interval_witness:
  "list_all (\<lambda>d. 0 \<le> area d \<and> 0 \<le> confidence d \<and> confidence d \<le> 1) temporalTransitionData
   \<and> length (analyzeTransitionEvolution temporalTransitionData) = 3
   \<and> list_all (\<lambda>e. 0 \<le> toNumber (cpri e) \<and> toNumber (cpri e) \<le> 1)
        (analyzeTransitionEvolution temporalTransitionData)"
proof -
  have h: "\<forall>d \<in> set temporalTransitionData. 0 \<le> area d \<and> 0 \<le> confidence d \<and> confidence d \<le> 1"
    by (simp add: temporalTransitionData_def)
  have n: "length (analyzeTransitionEvolution temporalTransitionData) = 3"
    by (simp add: analyzeTransitionEvolution_def length_array_sort evolutions_by_key_def
        group_by_key_def temporalTransitionData_def transition_key_def)
  from h n cpri_in_unit_interval [OF h] show ?thesis
    by (simp add: list_all_iff)
qed


section \<open>TransitionEvolutionAnalyzer: ranking\<close>

text \<open>
  Claim C2. The list that \<open>analyzeTransitionEvolution\<close> returns is sorted non-increasing
  by \<^verbatim>\<open>cpri\<close>, and the sort is stable: for every value \<open>c\<close>, the evolutions whose
  \<^verbatim>\<open>cpri\<close> is \<open>c\<close> appear in the order they had before the sort, which is the order in
  which their keys first occur in the flows.
\<close>

theorem evolutions_ranked_by_cpri:
  "sorted_wrt (\<lambda>a b. toNumber (cpri a) \<ge> toNumber (cpri b)) (analyzeTransitionEvolution flows)
   \<and> (\<forall>c. filter (\<lambda>e. toNumber (cpri e) = c) (analyzeTransitionEvolution flows)
          = filter (\<lambda>e. toNumber (cpri e) = c) (evolutions_by_key flows))"
proof
  have "sorted_wrt (\<lambda>a b. toNumber (cpri b) - toNumber (cpri a) \<le> 0) (analyzeTransitionEvolution flows)"
    unfolding analyzeTransitionEvolution_def
    by (rule ordered_array_sort) auto
  then show "sorted_wrt (\<lambda>a b. toNumber (cpri a) \<ge> toNumber (cpri b)) (analyzeTransitionEvolution flows)"
    by simp
next
  show "\<forall>c. filter (\<lambda>e. toNumber (cpri e) = c) (analyzeTransitionEvolution flows)
          = filter (\<lambda>e. toNumber (cpri e) = c) (evolutions_by_key flows)"
    unfolding analyzeTransitionEvolution_def
    by (intro allI filter_array_sort) simp
qed



section \<open>ProjectionSimulator\<close>

text \<open>
  Claim C3. For every table with at least 3 distinct years, \<open>getFutureProjection\<close> at
  policy intensity 0 returns the unmitigated projection: with \<open>rawRate\<close> the change of
  the Built-up series over the last three years divided by their time span (which is not
  zero), the projected area is the latest area plus \<open>rawRate * 2\<close>, the increase is
  \<open>rawRate * 2\<close>, the risk level is the band of that increase, and \<^verbatim>\<open>reduction\<close>
  and \<^verbatim>\<open>savedArea\<close> are \<^verbatim>\<open>null\<close>.
\<close>

theorem projection_without_policy:
  assumes "3 \<le> card (ts_year ` set td)"
  shows "let ys = years td; built = builtUpTrend td; n = length ys;
             rawRate = (built ! (n - 1) - built ! (n - 3)) / (real (ys ! (n - 1)) - real (ys ! (n - 3)))
         in real (ys ! (n - 1)) - real (ys ! (n - 3)) \<noteq> 0
          \<and> getFutureProjection td 0 =
              Some \<lparr> targetYear = decimal (ys ! (n - 1)) @ ''2'',
                     projectedArea = toFixed 1 (built ! (n - 1) + rawRate * 2),
                     increase = toFixed 1 (rawRate * 2),
                     riskLevel = (if rawRate * 2 > 10 then ''Critical''
                                  else if rawRate * 2 > 5 then ''High'' else ''Low''),
                     proj_color = (if rawRate * 2 > 10 then ''#EF4444''
                                  else if rawRate * 2 > 5 then ''#F59E0B'' else ''#10B981''),
                     reduction = None,
                     savedArea = None \<rparr>"
proof -
  from assms have len: "3 \<le> length (years td)"
    by (simp add: length_years)
  then have "length (years td) - 1 < length (years td)" "length (years td) - 3 < length (years td)"
    "length (years td) - 1 \<noteq> length (years td) - 3"
    by linarith+
  then have "years td ! (length (years td) - 1) \<noteq> years td ! (length (years td) - 3)"
    using distinct_years [of td] by (simp add: nth_eq_iff_index_eq)
  then have span: "real (years td ! (length (years td) - 1)) - real (years td ! (length (years td) - 3)) \<noteq> 0"
    by simp
  have two: "decimal 2 = ''2''"
    by (simp add: decimal.simps)
  from len span show ?thesis
    by (simp add: getFutureProjection_def Let_def two)
qed


theorem projection_without_policy_witness:
  "3 \<le> card (ts_year ` set urban_table)
   \<and> getFutureProjection urban_table 0 =
       Some \<lparr> targetYear = ''20242'',
              projectedArea = Fixed False 1 250,
              increase = Fixed False 1 50,
              riskLevel = ''Low'',
              proj_color = ''#10B981'',
              reduction = None,
              savedArea = None \<rparr>"
proof -
  have three: "3 \<le> card (ts_year ` set urban_table)"
    by (simp add: urban_table_def)
  have "getFutureProjection urban_table 0 =
       Some \<lparr> targetYear = ''20242'',
              projectedArea = Fixed False 1 250,
              increase = Fixed False 1 50,
              riskLevel = ''Low'',
              proj_color = ''#10B981'',
              reduction = None,
              savedArea = None \<rparr>"
    using projection_without_policy [OF three]
    by (simp add: Let_def years_urban_table builtUpTrend_urban_table decimal.simps toFixed_def)
  with three show ?thesis ..
qed

section \<open>SurveyBudgetOptimizer: the allocation\<close>

text \<open>
  Claim C4. For every list of evolutions (with the non-empty histories the analyzer gives
  them) and every budget the component can hold, that is, the initial budget after any
  sequence of changes, \<open>getBudgetOptimizedSurveys\<close> returns an allocation with
  \<open>selected.length\<close> at most \<open>floor(budget / costPerSite)\<close>, with
  \<open>selected.length + deferredCount\<close> the number of candidates (the evolutions with
  \<open>cpri < 0.45\<close>), and with \<open>totalCost\<close> equal to \<open>selected.length\<close> times the cost
  per site.
\<close>

theorem survey_allocation:
  assumes "\<forall>e \<in> set trends. history e \<noteq> []"
  shows "\<exists>r. getBudgetOptimizedSurveys trends (budget_after changes) = Inr r
     \<and> int (length (selected r))
          \<le> \<lfloor>real_of_int (budget_after changes) / real_of_int surveyCostPerSite\<rfloor>
     \<and> length (selected r) + deferredCount r = length (filter (\<lambda>d. toNumber (cpri d) < 0.45) trends)
     \<and> totalCost r = int (length (selected r)) * surveyCostPerSite"
  using allocation_for_budget [OF assms, of "budget_after changes"] budget_after_nonneg [of changes]
  by blast

theorem survey_allocation_witness:
  "list_all (\<lambda>e. history e \<noteq> []) sample_trends
   \<and> budget_after [Some (- 1200), Some 3000] = 3000
   \<and> (\<exists>r. getBudgetOptimizedSurveys sample_trends (budget_after [Some (- 1200), Some 3000]) = Inr r
     \<and> int (length (selected r)) \<le> 2
     \<and> length (selected r) + deferredCount r = 2
     \<and> totalCost r = int (length (selected r)) * 1200)"
proof -
  have h: "\<forall>e \<in> set sample_trends. history e \<noteq> []"
    by (simp add: sample_trends_def sample_evolution_def)
  have b: "budget_after [Some (- 1200), Some 3000] = 3000"
    by (simp add: budget_after_def setBudget_def)
  have m: "\<lfloor>real_of_int 3000 / real_of_int surveyCostPerSite\<rfloor> = 2"
    by (simp add: surveyCostPerSite_def)
  from survey_allocation [OF h, of "[Some (- 1200), Some 3000]"]
  obtain r where r: "getBudgetOptimizedSurveys sample_trends (budget_after [Some (- 1200), Some 3000]) = Inr r"
      "int (length (selected r))
         \<le> \<lfloor>real_of_int (budget_after [Some (- 1200), Some 3000]) / real_of_int surveyCostPerSite\<rfloor>"
      "length (selected r) + deferredCount r
         = length (filter (\<lambda>d. toNumber (cpri d) < 0.45) sample_trends)"
      "totalCost r = int (length (selected r)) * surveyCostPerSite"
    by blast
  from r(2) have "int (length (selected r)) \<le> 2"
    unfolding b m .
  moreover from r(3) have "length (selected r) + deferredCount r = 2"
    unfolding candidates_sample_trends .
  moreover from r(4) have "totalCost r = int (length (selected r)) * 1200"
    by (simp add: surveyCostPerSite_def)
  ultimately show ?thesis
    using h b r(1) by (simp add: list_all_iff)
qed

section \<open>SurveyBudgetOptimizer: no budget\<close>

text \<open>
  Claim C5. For every list of evolutions, a budget that is zero or negative yields an
  allocation with an empty selection, and no failure: whenever the budget the component
  holds is not positive, the selection is empty; and when the user enters a zero or
  negative amount, the budget held afterwards is 0 and the selection is empty.
\<close>

theorem empty_selection_without_budget:
  "(budget_after changes \<le> 0 \<longrightarrow>
      (\<exists>r. getBudgetOptimizedSurveys trends (budget_after changes) = Inr r
          \<and> selected r = [] \<and> totalCost r = 0))
   \<and> (v \<le> 0 \<longrightarrow> budget_after (changes @ [Some v]) = 0
      \<and> (\<exists>r. getBudgetOptimizedSurveys trends (budget_after (changes @ [Some v])) = Inr r
            \<and> selected r = [] \<and> totalCost r = 0))"
proof (intro conjI impI)
  have c: "0 < surveyCostPerSite"
    by (simp add: surveyCostPerSite_def)
  show "\<exists>r. getBudgetOptimizedSurveys trends (budget_after changes) = Inr r
          \<and> selected r = [] \<and> totalCost r = 0"
    if "budget_after changes \<le> 0"
    using that budget_after_nonneg [of changes] c
    by (intro empty_selection_below_cost) simp_all
  assume v: "v \<le> 0"
  then show z: "budget_after (changes @ [Some v]) = 0"
    by (simp add: budget_after_snoc setBudget_def)
  show "\<exists>r. getBudgetOptimizedSurveys trends (budget_after (changes @ [Some v])) = Inr r
          \<and> selected r = [] \<and> totalCost r = 0"
    unfolding z using c by (intro empty_selection_below_cost) simp_all
qed

theorem empty_selection_without_budget_witness:
  "budget_after [Some 3000, Some 0] \<le> 0 \<and> (- 1200 :: int) \<le> 0
   \<and> (\<exists>r. getBudgetOptimizedSurveys sample_trends (budget_after [Some 3000, Some 0]) = Inr r
          \<and> selected r = [] \<and> totalCost r = 0)
   \<and> budget_after ([Some 3000] @ [Some (- 1200)]) = 0
   \<and> (\<exists>r. getBudgetOptimizedSurveys sample_trends (budget_after ([Some 3000] @ [Some (- 1200)])) = Inr r
          \<and> selected r = [] \<and> totalCost r = 0)"
proof -
  have z: "budget_after [Some 3000, Some 0] \<le> 0"
    by (simp add: budget_after_def setBudget_def)
  have n: "(- 1200 :: int) \<le> 0"
    by simp
  from empty_selection_without_budget [where changes = "[Some 3000, Some 0]" and trends = sample_trends]
    empty_selection_without_budget
      [where changes = "[Some 3000]" and trends = sample_trends and v = "- 1200"] z n
  show ?thesis by blast
qed

section \<open>TrendExtractor\<close>

text \<open>
  Claim C6. The claim reads: the series is aligned to the distinct years of the table
  sorted ascending under numeric comparison, and an absent (year, class) pair contributes
  area 0. The years are sorted by \<^verbatim>\<open>sort()\<close> without a comparator, which compares
  them as strings. On the table with the years 999 and 1000 the year axis is therefore
  1000, 999, which is not ascending as numbers, and the Built-up series follows that
  axis: 12 (the area of 1000) before 10 (the area of 999).
\<close>

theorem years_sorted_as_strings:
  "years millennium_table = [1000, 999]
   \<and> \<not> sorted (years millennium_table)
   \<and> builtUpTrend millennium_table = [12, 10]"
  by (simp add: millennium_table_def years_def new_Set_def array_sort_def decimal.simps
      builtUpTrend_def class_trend_def)


section \<open>EcoRiskAssessor\<close>

text \<open>
  Claim C7. \<open>getEcoRiskAssessment\<close> returns \<^verbatim>\<open>null\<close> exactly when the table has fewer
  than 2 distinct years. Otherwise, with \<open>totalEcoLoss\<close> the sum of baseline minus
  current for Forest and for Water (baseline the first, current the last entry of the
  series), the trend is Rapid Degradation above 20, Declining above 5, Recovering below
  \<open>-1\<close> and Stable otherwise; so 25 gives Rapid Degradation, 10 Declining, \<open>-2\<close>
  Recovering and 0 Stable. A zero baseline gives the loss percentage \<^verbatim>\<open>"0.0"\<close>.
\<close>

theorem eco_risk_assessment:
  "(getEcoRiskAssessment td = None \<longleftrightarrow> card (ts_year ` set td) < 2)
   \<and> (2 \<le> card (ts_year ` set td) \<longrightarrow>
       (\<exists>r. getEcoRiskAssessment td = Some r
         \<and> (let totalEcoLoss = (hd (forestTrend td) - last (forestTrend td))
                               + (hd (waterTrend td) - last (waterTrend td))
            in eco_trend r = (if totalEcoLoss > 20 then ''Rapid Degradation''
                              else if totalEcoLoss > 5 then ''Declining''
                              else if totalEcoLoss < - 1 then ''Recovering''
                              else ''Stable'')
             \<and> (totalEcoLoss = 25 \<longrightarrow> eco_trend r = ''Rapid Degradation'')
             \<and> (totalEcoLoss = 10 \<longrightarrow> eco_trend r = ''Declining'')
             \<and> (totalEcoLoss = - 2 \<longrightarrow> eco_trend r = ''Recovering'')
             \<and> (totalEcoLoss = 0 \<longrightarrow> eco_trend r = ''Stable''))
         \<and> (hd (forestTrend td) = 0 \<longrightarrow> forestLossPct r = toFixed 1 0)
         \<and> (hd (waterTrend td) = 0 \<longrightarrow> waterLossPct r = toFixed 1 0)))"
proof (intro conjI impI)
  show "getEcoRiskAssessment td = None \<longleftrightarrow> card (ts_year ` set td) < 2"
    by (simp add: getEcoRiskAssessment_def Let_def length_years)
next
  assume two: "2 \<le> card (ts_year ` set td)"
  then have len: "\<not> length (years td) < 2"
    by (simp add: length_years)
  then have f: "forestTrend td \<noteq> []" and w: "waterTrend td \<noteq> []"
    using length_class_trend [of "''Forest''" td] length_class_trend [of "''Water''" td]
    by (auto simp: forestTrend_def waterTrend_def)
  have hdf: "forestTrend td ! 0 = hd (forestTrend td)"
    using f by (simp add: hd_conv_nth)
  have hdw: "waterTrend td ! 0 = hd (waterTrend td)"
    using w by (simp add: hd_conv_nth)
  have lf: "forestTrend td ! (length (forestTrend td) - Suc 0) = last (forestTrend td)"
    using f by (simp add: last_conv_nth)
  have lw: "waterTrend td ! (length (waterTrend td) - Suc 0) = last (waterTrend td)"
    using w by (simp add: last_conv_nth)
  show "\<exists>r. getEcoRiskAssessment td = Some r
         \<and> (let totalEcoLoss = (hd (forestTrend td) - last (forestTrend td))
                               + (hd (waterTrend td) - last (waterTrend td))
            in eco_trend r = (if totalEcoLoss > 20 then ''Rapid Degradation''
                              else if totalEcoLoss > 5 then ''Declining''
                              else if totalEcoLoss < - 1 then ''Recovering''
                              else ''Stable'')
             \<and> (totalEcoLoss = 25 \<longrightarrow> eco_trend r = ''Rapid Degradation'')
             \<and> (totalEcoLoss = 10 \<longrightarrow> eco_trend r = ''Declining'')
             \<and> (totalEcoLoss = - 2 \<longrightarrow> eco_trend r = ''Recovering'')
             \<and> (totalEcoLoss = 0 \<longrightarrow> eco_trend r = ''Stable''))
         \<and> (hd (forestTrend td) = 0 \<longrightarrow> forestLossPct r = toFixed 1 0)
         \<and> (hd (waterTrend td) = 0 \<longrightarrow> waterLossPct r = toFixed 1 0)"
    using len by (simp add: getEcoRiskAssessment_def Let_def hdf hdw lf lw)
qed


theorem eco_risk_assessment_witness:
  "2 \<le> card (ts_year ` set (forest_table 100 75))
   \<and> (\<exists>r. getEcoRiskAssessment (forest_table 100 75) = Some r
          \<and> eco_trend r = ''Rapid Degradation'' \<and> waterLossPct r = toFixed 1 0)
   \<and> (\<exists>r. getEcoRiskAssessment (forest_table 100 90) = Some r \<and> eco_trend r = ''Declining'')
   \<and> (\<exists>r. getEcoRiskAssessment (forest_table 10 12) = Some r \<and> eco_trend r = ''Recovering'')
   \<and> (\<exists>r. getEcoRiskAssessment (forest_table 0 0) = Some r
          \<and> eco_trend r = ''Stable'' \<and> forestLossPct r = toFixed 1 0)
   \<and> card (ts_year ` set (take 1 (forest_table 100 75))) < 2
   \<and> getEcoRiskAssessment (take 1 (forest_table 100 75)) = None"
proof -
  have two: "2 \<le> card (ts_year ` set (forest_table f0 f1))" for f0 f1
    by (simp add: forest_table_def)
  have one: "card (ts_year ` set (take 1 (forest_table 100 75))) < 2"
    by (simp add: forest_table_def)
  note trends = forestTrend_forest_table waterTrend_forest_table
  have a: "\<exists>r. getEcoRiskAssessment (forest_table 100 75) = Some r
          \<and> eco_trend r = ''Rapid Degradation'' \<and> waterLossPct r = toFixed 1 0"
    using eco_risk_assessment [of "forest_table 100 75"] two [of 100 75]
    by (auto simp: trends)
  have b: "\<exists>r. getEcoRiskAssessment (forest_table 100 90) = Some r \<and> eco_trend r = ''Declining''"
    using eco_risk_assessment [of "forest_table 100 90"] two [of 100 90]
    by (auto simp: trends)
  have c: "\<exists>r. getEcoRiskAssessment (forest_table 10 12) = Some r \<and> eco_trend r = ''Recovering''"
    using eco_risk_assessment [of "forest_table 10 12"] two [of 10 12]
    by (auto simp: trends)
  have d: "\<exists>r. getEcoRiskAssessment (forest_table 0 0) = Some r
          \<and> eco_trend r = ''Stable'' \<and> forestLossPct r = toFixed 1 0"
    using eco_risk_assessment [of "forest_table 0 0"] two [of 0 0]
    by (auto simp: trends)
  have e: "getEcoRiskAssessment (take 1 (forest_table 100 75)) = None"
    using eco_risk_assessment [of "take 1 (forest_table 100 75)"] one
    by simp
  from two [of 100 75] a b c d one e show ?thesis by blast
qed

section \<open>GovernanceAlertEngine\<close>

text \<open>
  What the first rule does: the ecological-risk alert is present exactly when some record
  has origin \<^verbatim>\<open>Forest\<close> or \<^verbatim>\<open>Water Body\<close>, destination \<^verbatim>\<open>Built-up\<close> or
  \<^verbatim>\<open>Barren\<close> and confidence above 0.80, and it lists exactly those records.
\<close>

lemma eco_rule_of_alerts:
  "filter (\<lambda>a. title a = ''Critical Ecosystem Loss'' \<or> title a = ''Ecological Risk'')
      (generateGovernanceAlerts persona ds vals yrs)
   = (let ecoRiskItems = filter (\<lambda>d.
            (t_from d = ''Forest'' \<or> t_from d = ''Water Body'')
          \<and> (t_to d = ''Built-up'' \<or> t_to d = ''Barren'')
          \<and> t_confidence d > 0.80) ds
      in if ecoRiskItems = [] then []
         else [\<lparr> alert_type = ''high'',
                 title = (if persona = ''environmental_officer''
                          then ''Critical Ecosystem Loss'' else ''Ecological Risk''),
                 items = ecoRiskItems \<rparr>])"
  by (simp add: generateGovernanceAlerts_def Let_def)

text \<open>
  Claim C8. The claim reads: a high-severity ecological-risk alert is emitted exactly when
  some record has origin class Forest or Water, destination class Built-up or Barren and
  confidence above 0.80. The rule compares the origin with \<^verbatim>\<open>Water Body\<close>, while the
  tables name the class \<^verbatim>\<open>Water\<close>. The record from Water to Barren with confidence
  0.90 satisfies the condition of the claim, and no alert is emitted for it.
\<close>

theorem water_origin_raises_no_alert:
  "(t_from water_loss_row = ''Water'' \<and> t_to water_loss_row = ''Barren''
      \<and> t_confidence water_loss_row > 0.80)
   \<and> generateGovernanceAlerts persona [water_loss_row] [] [] = []"
  by (simp add: generateGovernanceAlerts_def Let_def water_loss_row_def)


section \<open>PriorityRanker\<close>

text \<open>
  Claim C9. The scoring and the ranking are functions of their inputs alone. The impact
  score of a row is determined by its area, its confidence and its weight: two rows that
  agree on these three get the same score, whatever their classes and the persona. Two
  states of the component that agree on the records, the persona and the filter settings
  (scenario and confidence threshold) have the same prioritized list, hence the same
  scores in the same order, and with the same rank mode the same ranked list; nothing else
  of the state, in particular the random source, has an influence.
\<close>

theorem priority_ranking_deterministic:
  "(t_area_sq_km d = t_area_sq_km d' \<and> t_confidence d = t_confidence d'
      \<and> getPolicyWeight p (t_from d) (t_to d) = getPolicyWeight p' (t_from d') (t_to d')
     \<longrightarrow> impactScore (score_row p d) = impactScore (score_row p' d'))
   \<and> (data s = data s' \<and> activePersona s = activePersona s'
      \<and> activeScenario s = activeScenario s' \<and> minConfidence s = minConfidence s'
     \<longrightarrow> prioritizedData s = prioritizedData s'
       \<and> map impactScore (prioritizedData s) = map impactScore (prioritizedData s')
       \<and> (rankMode s = rankMode s' \<longrightarrow> getRankedData s = getRankedData s'))"
  by (simp add: score_row_def Let_def prioritizedData_def getRankedData_def)


theorem priority_ranking_deterministic_witness:
  "(t_area_sq_km forest_row = t_area_sq_km barren_row
      \<and> t_confidence forest_row = t_confidence barren_row
      \<and> getPolicyWeight ''policy_maker'' (t_from forest_row) (t_to forest_row)
          = getPolicyWeight ''urban_planner'' (t_from barren_row) (t_to barren_row))
   \<and> impactScore (score_row ''policy_maker'' forest_row)
        = impactScore (score_row ''urban_planner'' barren_row)
   \<and> (data first_state = data second_state \<and> activePersona first_state = activePersona second_state
      \<and> activeScenario first_state = activeScenario second_state
      \<and> minConfidence first_state = minConfidence second_state
      \<and> rankMode first_state = rankMode second_state)
   \<and> first_state \<noteq> second_state
   \<and> prioritizedData first_state = prioritizedData second_state
   \<and> getRankedData first_state = getRankedData second_state"
proof -
  have rows: "t_area_sq_km forest_row = t_area_sq_km barren_row
      \<and> t_confidence forest_row = t_confidence barren_row
      \<and> getPolicyWeight ''policy_maker'' (t_from forest_row) (t_to forest_row)
          = getPolicyWeight ''urban_planner'' (t_from barren_row) (t_to barren_row)"
    by (simp add: forest_row_def barren_row_def getPolicyWeight_def)
  have states: "data first_state = data second_state \<and> activePersona first_state = activePersona second_state
      \<and> activeScenario first_state = activeScenario second_state
      \<and> minConfidence first_state = minConfidence second_state
      \<and> rankMode first_state = rankMode second_state"
    by (simp add: first_state_def second_state_def)
  have differ: "first_state \<noteq> second_state"
    by (simp add: first_state_def second_state_def)
  from priority_ranking_deterministic
    [of forest_row barren_row "''policy_maker''" "''urban_planner''" first_state second_state]
    rows states differ
  show ?thesis by blast
qed

section \<open>VelocityAnalyzer\<close>

text \<open>
  Claim C10, amended. For every series with fewer than 3 points \<open>getVelocityMetrics\<close>
  returns the fixed object with velocity \<^verbatim>\<open>0\<close>, acceleration \<^verbatim>\<open>0\<close>, status
  \<^verbatim>\<open>Stable\<close> and the grey colour. A genuine trend of velocity zero and acceleration
  zero (the last three areas equal, at different years) has the same status and colour
  and the same numeric velocity and acceleration, but holds them as the strings
  \<^verbatim>\<open>"0.0"\<close> and \<^verbatim>\<open>"0.00"\<close> and not as the numbers \<^verbatim>\<open>0\<close> and \<^verbatim>\<open>0\<close>: the two
  results carry no flag that tells them apart and differ only in that representation.
\<close>

theorem velocity_sentinel:
  "(length tv < 3 \<longrightarrow>
      getVelocityMetrics tv ys =
        \<lparr> velocity = Num 0, acceleration = Num 0, status = ''Stable'', color = ''#6B7280'' \<rparr>)
   \<and> (3 \<le> length tv
        \<and> tv ! (length tv - 1) = tv ! (length tv - 2) \<and> tv ! (length tv - 2) = tv ! (length tv - 3)
        \<and> ys ! (length tv - 1) \<noteq> ys ! (length tv - 2) \<and> ys ! (length tv - 2) \<noteq> ys ! (length tv - 3)
      \<longrightarrow> getVelocityMetrics tv ys =
            \<lparr> velocity = Str (Fixed False 1 0), acceleration = Str (Fixed False 2 0),
              status = ''Stable'', color = ''#6B7280'' \<rparr>
        \<and> valueOf (velocity (getVelocityMetrics tv ys)) = valueOf (Num 0)
        \<and> valueOf (acceleration (getVelocityMetrics tv ys)) = valueOf (Num 0)
        \<and> velocity (getVelocityMetrics tv ys) \<noteq> Num 0
        \<and> acceleration (getVelocityMetrics tv ys) \<noteq> Num 0)"
  by (simp add: getVelocityMetrics_def Let_def toFixed_def toNumber_def)

theorem velocity_sentinel_witness:
  "length [1, 2 :: real] < 3
   \<and> getVelocityMetrics [1, 2] [2022, 2024] =
        \<lparr> velocity = Num 0, acceleration = Num 0, status = ''Stable'', color = ''#6B7280'' \<rparr>
   \<and> 3 \<le> length [5, 5, 5 :: real]
   \<and> getVelocityMetrics [5, 5, 5] [2020, 2022, 2024] =
        \<lparr> velocity = Str (Fixed False 1 0), acceleration = Str (Fixed False 2 0),
          status = ''Stable'', color = ''#6B7280'' \<rparr>"
  using velocity_sentinel [of "[1, 2]" "[2022, 2024]"]
    velocity_sentinel [of "[5, 5, 5]" "[2020, 2022, 2024]"]
  by simp


text \<open>
  The two results are not identical: the result for the empty series differs from the
  result for three equal areas, whose velocity and acceleration are zero and whose status
  is \<^verbatim>\<open>Stable\<close>.
\<close>

theorem velocity_sentinel_distinguishable:
  "length ([] :: real list) < 3
   \<and> valueOf (velocity (getVelocityMetrics [5, 5, 5] [2020, 2022, 2024])) = 0
   \<and> valueOf (acceleration (getVelocityMetrics [5, 5, 5] [2020, 2022, 2024])) = 0
   \<and> status (getVelocityMetrics [5, 5, 5] [2020, 2022, 2024]) = ''Stable''
   \<and> getVelocityMetrics [] [] \<noteq> getVelocityMetrics [5, 5, 5] [2020, 2022, 2024]"
  by (simp add: getVelocityMetrics_def Let_def toFixed_def toNumber_def)


end
